theory Spec2Isabelle
  imports Complex_Main
begin

section \<open>Refresh-token store: api/app/models.py and api/app/security.py\<close>

text \<open>
  A \<^verbatim>\<open>datetime\<close> is an instant with microsecond resolution; it is modelled as the
  integer number of microseconds since the epoch, so that comparison and the addition of a
  \<^verbatim>\<open>timedelta\<close> are exact.
\<close>

type_synonym instant = int

text \<open>The columns of the table \<^verbatim>\<open>refresh_tokens\<close> (class RefreshToken); the primary key
  \<^verbatim>\<open>id\<close> is the field \<open>rid\<close>.\<close>

record RefreshToken =
  rid :: int
  user_id :: int
  token_hash :: string
  expires_at :: instant
  revoked_at :: "instant option"
  user_agent :: "string option"
  ip_address :: "string option"
  created_at :: instant

text \<open>The columns of the table \<^verbatim>\<open>users\<close> (class User); the primary key is \<open>uid\<close>.\<close>

record User =
  uid :: int
  email :: string
  password_hash :: string

text \<open>The fields of \<^verbatim>\<open>Settings\<close> (api/app/config.py) that the modelled code reads.\<close>

record Settings =
  access_ttl :: int
  refresh_ttl :: int
  rate_limit_auth :: int
  rate_limit_refresh :: int

definition default_settings :: Settings where
  "default_settings =
     \<lparr>access_ttl = 900, refresh_ttl = 604800, rate_limit_auth = 10, rate_limit_refresh = 5\<rparr>"

text \<open>Exceptions of the authentication API: \<^verbatim>\<open>HTTPException(status_code, detail)\<close>, a failure
  of a statement on the database session (\<^verbatim>\<open>SQLAlchemyError\<close>), its subclass
  \<^verbatim>\<open>PendingRollbackError\<close>, raised when a session is used after a failed commit without a
  rollback, and the \<^verbatim>\<open>AttributeError\<close> of reading a field of \<^verbatim>\<open>None\<close>.\<close>

datatype exn = HTTPException int string | SQLAlchemyError | PendingRollbackError | AttributeError

text \<open>\<^verbatim>\<open>RefreshToken.is_revoked\<close> and \<^verbatim>\<open>RefreshToken.is_expired\<close>; the clock reading of
  \<^verbatim>\<open>is_expired\<close> is the argument \<open>now\<close>.\<close>

definition is_revoked :: "RefreshToken \<Rightarrow> bool" where
  "is_revoked t = (revoked_at t \<noteq> None)"

definition is_expired :: "instant \<Rightarrow> RefreshToken \<Rightarrow> bool" where
  "is_expired now t = (now > expires_at t)"

text \<open>
  \<^verbatim>\<open>timedelta(seconds=n)\<close> in microseconds.
\<close>

definition timedelta_seconds :: "int \<Rightarrow> int" where
  "timedelta_seconds n = n * 1000000"

text \<open>The next value of the primary key: larger than every key of the table.\<close>

definition next_id :: "RefreshToken list \<Rightarrow> int" where
  "next_id rows = foldr max (map rid rows) 0 + 1"

text \<open>
  The table is the list of its rows in insertion order; \<^verbatim>\<open>.first()\<close> is the first row of
  the list that passes the filter. \<^verbatim>\<open>JWTManager.hash_token\<close> is SHA-256 of the standard
  library; the operations take it as the parameter \<open>H\<close>. A \<^verbatim>\<open>db.commit()\<close> that raises is
  the argument \<open>commit_ok = False\<close>: the table is then left as it was.
\<close>

definition create_refresh_token_record ::
  "Settings \<Rightarrow> (string \<Rightarrow> string) \<Rightarrow> RefreshToken list \<Rightarrow> int \<Rightarrow> string \<Rightarrow>
   string option \<Rightarrow> string option \<Rightarrow> instant \<Rightarrow> bool \<Rightarrow> exn + (RefreshToken \<times> RefreshToken list)" where
  "create_refresh_token_record cfg H rows uid' token ua ip now commit_ok =
     (let token_hash' = H token;
          expires_at' = now + timedelta_seconds (refresh_ttl cfg);
          refresh_token = \<lparr>rid = next_id rows, user_id = uid', token_hash = token_hash',
                           expires_at = expires_at', revoked_at = None, user_agent = ua,
                           ip_address = ip, created_at = now\<rparr>
      in if commit_ok then Inr (refresh_token, rows @ [refresh_token]) else Inl SQLAlchemyError)"

definition verify_refresh_token ::
  "(string \<Rightarrow> string) \<Rightarrow> RefreshToken list \<Rightarrow> string \<Rightarrow> instant \<Rightarrow> RefreshToken option" where
  "verify_refresh_token H rows token now =
     (let token_hash' = H token in
      case find (\<lambda>r. token_hash r = token_hash') rows of
        None \<Rightarrow> None
      | Some refresh_token \<Rightarrow>
          if is_revoked refresh_token then None
          else if is_expired now refresh_token then None
          else Some refresh_token)"

definition revoke_refresh_token ::
  "RefreshToken list \<Rightarrow> RefreshToken \<Rightarrow> instant \<Rightarrow> bool \<Rightarrow> exn + RefreshToken list" where
  "revoke_refresh_token rows refresh_token now commit_ok =
     (if commit_ok
      then Inr (map (\<lambda>r. if rid r = rid refresh_token then r\<lparr>revoked_at := Some now\<rparr> else r) rows)
      else Inl SQLAlchemyError)"

definition revoke_all_user_tokens ::
  "RefreshToken list \<Rightarrow> int \<Rightarrow> instant \<Rightarrow> bool \<Rightarrow> exn + RefreshToken list" where
  "revoke_all_user_tokens rows uid' now commit_ok =
     (if commit_ok
      then Inr (map (\<lambda>r. if user_id r = uid' \<and> revoked_at r = None
                          then r\<lparr>revoked_at := Some now\<rparr> else r) rows)
      else Inl SQLAlchemyError)"

text \<open>Two rows used to evaluate the operations on concrete tables.\<close>

definition row_alice :: RefreshToken where
  "row_alice = \<lparr>rid = 1, user_id = 7, token_hash = ''h-alice'', expires_at = 1000,
                 revoked_at = None, user_agent = None, ip_address = None, created_at = 0\<rparr>"

definition row_bob :: RefreshToken where
  "row_bob = \<lparr>rid = 2, user_id = 8, token_hash = ''h-bob'', expires_at = 1000,
               revoked_at = None, user_agent = None, ip_address = None, created_at = 0\<rparr>"

section \<open>Requests, replies and the environment of one call\<close>

text \<open>
  The parts of a Starlette \<^verbatim>\<open>Request\<close> that the modelled code reads. \<open>client\<close> is
  \<^verbatim>\<open>request.client.host\<close>, or \<open>None\<close> when \<^verbatim>\<open>request.client\<close> is \<^verbatim>\<open>None\<close>;
  \<open>request_id\<close> is \<^verbatim>\<open>request.state.request_id\<close> when that attribute is set; \<open>body\<close> is
  the result of \<^verbatim>\<open>await request.body()\<close>, \<open>None\<close> when reading it raises;
  \<open>http_method\<close> is \<^verbatim>\<open>request.method\<close>.
\<close>

record Request =
  http_method :: string
  path :: string
  headers :: "string \<rightharpoonup> string"
  cookies :: "string \<rightharpoonup> string"
  client :: "string option"
  request_id :: "string option"
  body :: "string option"

datatype cookie_op = SetCookie string string int | DeleteCookie string

datatype reply_body = MessageResponse string bool | AuthResponse int string string

type_synonym Reply = "reply_body \<times> cookie_op list"

text \<open>
  The status line a client sees: a returned model is sent with 200, an
  \<^verbatim>\<open>HTTPException\<close> with its own status, and every other exception with 500 by the handlers
  of \<^verbatim>\<open>setup_exception_handlers\<close> (api/app/middleware.py).
\<close>

fun status_code_of :: "exn + 'a \<Rightarrow> int" where
  "status_code_of (Inr _) = 200"
| "status_code_of (Inl (HTTPException code _)) = code"
| "status_code_of (Inl _) = 500"

text \<open>
  What one call takes from outside the program: the clock readings of its
  \<^verbatim>\<open>datetime.now\<close> calls, whether each statement on the database session succeeds, and
  the random tokens it generates.
\<close>

record Env =
  now_verify :: instant
  now_revoke :: instant
  now_create :: instant
  query_ok :: bool
  user_query_ok :: bool
  revoke_ok :: bool
  create_ok :: bool
  new_access_token :: string
  new_refresh_token :: string

record Store =
  refresh_tokens :: "RefreshToken list"
  users :: "User list"

text \<open>Python's \<^verbatim>\<open>str.strip()\<close> on ASCII text, and \<^verbatim>\<open>s.split(",")[0]\<close>.\<close>

definition py_isspace :: "char \<Rightarrow> bool" where
  "py_isspace c = (c \<in> set [CHR '' '', CHR 0x09, CHR 0x0A, CHR 0x0B, CHR 0x0C, CHR 0x0D,
                               CHR 0x1C, CHR 0x1D, CHR 0x1E, CHR 0x1F])"

definition py_strip :: "string \<Rightarrow> string" where
  "py_strip s = rev (dropWhile py_isspace (rev (dropWhile py_isspace s)))"

definition get_client_ip :: "Request \<Rightarrow> string" where
  "get_client_ip request =
     (case headers request ''X-Forwarded-For'' of
        Some (c # cs) \<Rightarrow> py_strip (takeWhile (\<lambda>x. x \<noteq> CHR '','') (c # cs))
      | _ \<Rightarrow>
        (case headers request ''X-Real-IP'' of
           Some (c # cs) \<Rightarrow> c # cs
         | _ \<Rightarrow> (case client request of Some h \<Rightarrow> h | None \<Rightarrow> ''unknown'')))"

definition get_user_agent :: "Request \<Rightarrow> string" where
  "get_user_agent request =
     (case headers request ''User-Agent'' of Some ua \<Rightarrow> ua | None \<Rightarrow> ''unknown'')"

section \<open>The refresh and logout endpoints: api/app/routers/auth.py\<close>

definition auth_cookies :: "Settings \<Rightarrow> string \<Rightarrow> string \<Rightarrow> cookie_op list" where
  "auth_cookies cfg access refresh =
     [SetCookie ''access_token'' access (access_ttl cfg),
      SetCookie ''refresh_token'' refresh (refresh_ttl cfg)]"

text \<open>
  \<^verbatim>\<open>refresh_token\<close>, after its dependencies. The verification is outside the
  \<^verbatim>\<open>try\<close>, so a failing query escapes; inside it an \<^verbatim>\<open>HTTPException\<close> is re-raised and
  every other exception reaches the last handler. That handler first logs
  \<^verbatim>\<open>token_record.user_id\<close> and then raises the 500 \<open>Token refresh failed\<close>. After a
  failed query the attribute is still loaded and the 500 is raised. After a commit that
  raised, the session has expired the record and waits for a rollback that the handler
  does not issue: reading the attribute raises \<^verbatim>\<open>PendingRollbackError\<close>, which leaves the
  handler in place of the 500. The result carries the table as the database holds it
  when the call ends: each manager call commits on its own.
\<close>

definition refresh_token ::
  "Settings \<Rightarrow> (string \<Rightarrow> string) \<Rightarrow> Store \<Rightarrow> Request \<Rightarrow> string option \<Rightarrow> Env \<Rightarrow>
   (exn + Reply) \<times> Store" where
  "refresh_token cfg H db request cookie env =
     (let failed = Inl (HTTPException 500 ''Token refresh failed. Please try again.'') in
      case cookie of
        None \<Rightarrow> (Inl (HTTPException 401 ''Refresh token required''), db)
      | Some [] \<Rightarrow> (Inl (HTTPException 401 ''Refresh token required''), db)
      | Some (c # cs) \<Rightarrow>
          if \<not> query_ok env then (Inl SQLAlchemyError, db)
          else
            (case verify_refresh_token H (refresh_tokens db) (c # cs) (now_verify env) of
               None \<Rightarrow> (Inl (HTTPException 401 ''Invalid or expired refresh token''), db)
             | Some token_record \<Rightarrow>
                 if \<not> user_query_ok env then (failed, db)
                 else
                   (case find (\<lambda>u. uid u = user_id token_record) (users db) of
                      None \<Rightarrow> (Inl (HTTPException 401 ''User not found''), db)
                    | Some user \<Rightarrow>
                        (case revoke_refresh_token (refresh_tokens db) token_record
                                (now_revoke env) (revoke_ok env) of
                           Inl e \<Rightarrow> (Inl PendingRollbackError, db)
                         | Inr rows1 \<Rightarrow>
                             (case create_refresh_token_record cfg H rows1 (uid user)
                                     (new_refresh_token env) (Some (get_user_agent request))
                                     (Some (get_client_ip request)) (now_create env)
                                     (create_ok env) of
                                Inl e \<Rightarrow>
                                  (Inl PendingRollbackError, db\<lparr>refresh_tokens := rows1\<rparr>)
                              | Inr (new_record, rows2) \<Rightarrow>
                                  (Inr (MessageResponse ''Token refreshed successfully'' True,
                                        auth_cookies cfg (new_access_token env)
                                          (new_refresh_token env)),
                                   db\<lparr>refresh_tokens := rows2\<rparr>))))))"

text \<open>
  \<^verbatim>\<open>logout\<close>: the whole body is inside a \<^verbatim>\<open>try\<close> whose handler returns the same
  success message.
\<close>

definition logout ::
  "(string \<Rightarrow> string) \<Rightarrow> Store \<Rightarrow> Request \<Rightarrow> string option \<Rightarrow> Env \<Rightarrow> (exn + Reply) \<times> Store" where
  "logout H db request cookie env =
     (let success = Inr (MessageResponse ''Logout successful'' True,
                         [DeleteCookie ''access_token'', DeleteCookie ''refresh_token'']) in
      case cookie of
        None \<Rightarrow> (success, db)
      | Some [] \<Rightarrow> (success, db)
      | Some (c # cs) \<Rightarrow>
          if \<not> query_ok env then (success, db)
          else
            (case verify_refresh_token H (refresh_tokens db) (c # cs) (now_verify env) of
               None \<Rightarrow> (success, db)
             | Some token_record \<Rightarrow>
                 (case revoke_refresh_token (refresh_tokens db) token_record
                         (now_revoke env) (revoke_ok env) of
                    Inl e \<Rightarrow> (success, db)
                  | Inr rows1 \<Rightarrow> (success, db\<lparr>refresh_tokens := rows1\<rparr>))))"

text \<open>Concrete tables and environments used to evaluate the endpoints.\<close>

definition user_alice :: User where
  "user_alice = \<lparr>uid = 7, email = ''alice@example.com'', password_hash = ''x''\<rparr>"

definition store0 :: Store where
  "store0 = \<lparr>refresh_tokens = [row_alice, row_bob], users = [user_alice]\<rparr>"

definition request0 :: Request where
  "request0 = \<lparr>http_method = ''POST'', path = ''/api/auth/refresh'', headers = Map.empty,
                cookies = Map.empty, client = Some ''10.0.0.1'', request_id = None,
                body = None\<rparr>"

definition env0 :: Env where
  "env0 = \<lparr>now_verify = 500, now_revoke = 501, now_create = 502, query_ok = True,
            user_query_ok = True, revoke_ok = True, create_ok = True,
            new_access_token = ''access-2'', new_refresh_token = ''alice-2''\<rparr>"

definition tag_hash :: "string \<Rightarrow> string" where
  "tag_hash s = ''h-'' @ s"

section \<open>The sliding-window limiter of the authentication API\<close>

text \<open>
  \<^verbatim>\<open>MemoryRateLimiter._requests\<close> is a \<^verbatim>\<open>defaultdict(deque)\<close>: a key that was never seen
  reads as the empty queue. A reading of \<^verbatim>\<open>time.time()\<close> is modelled as a real number
  of seconds, so \<^verbatim>\<open>now - window_seconds\<close> is exact.
\<close>

type_synonym limiter = "string \<rightharpoonup> real list"

definition queue_of :: "limiter \<Rightarrow> string \<Rightarrow> real list" where
  "queue_of reqs key = (case reqs key of None \<Rightarrow> [] | Some q \<Rightarrow> q)"

text \<open>The loop \<^verbatim>\<open>while requests and requests[0] < window_start: requests.popleft()\<close>.\<close>

fun evict :: "real \<Rightarrow> real list \<Rightarrow> real list" where
  "evict window_start [] = []"
| "evict window_start (r # rs) = (if r < window_start then evict window_start rs else r # rs)"

definition is_allowed :: "limiter \<Rightarrow> string \<Rightarrow> int \<Rightarrow> int \<Rightarrow> real \<Rightarrow> bool \<times> limiter" where
  "is_allowed reqs key limit window_seconds now =
     (let window_start = now - real_of_int window_seconds;
          requests = evict window_start (queue_of reqs key)
      in if int (length requests) \<ge> limit then (False, reqs(key \<mapsto> requests))
         else (True, reqs(key \<mapsto> requests @ [now])))"

text \<open>Python's \<^verbatim>\<open>str(n)\<close> for an integer, used by the f-string of the 429 detail.\<close>

function str_nat :: "nat \<Rightarrow> string" where
  "str_nat n = (if n < 10 then [''0123456789'' ! n]
                else str_nat (n div 10) @ [''0123456789'' ! (n mod 10)])"
  by pat_completeness auto
termination
  by (relation "measure (\<lambda>n. n)") auto

definition str_int :: "int \<Rightarrow> string" where
  "str_int i = (if i < 0 then CHR ''-'' # str_nat (nat (- i)) else str_nat (nat i))"

definition check_rate_limit ::
  "limiter \<Rightarrow> Request \<Rightarrow> int \<Rightarrow> int \<Rightarrow> string \<Rightarrow> real \<Rightarrow> (exn + unit) \<times> limiter" where
  "check_rate_limit reqs request limit window_seconds key_prefix now =
     (let client_ip = (case client request of Some h \<Rightarrow> h | None \<Rightarrow> ''unknown'');
          key = key_prefix @ '':'' @ client_ip;
          (allowed, reqs') = is_allowed reqs key limit window_seconds now
      in if \<not> allowed
         then (Inl (HTTPException 429
                      (''Rate limit exceeded. Maximum '' @ str_int limit @ '' requests per ''
                         @ str_int window_seconds @ '' seconds.'')), reqs')
         else (Inr (), reqs'))"


definition check_refresh_rate_limit ::
  "Settings \<Rightarrow> limiter \<Rightarrow> Request \<Rightarrow> real \<Rightarrow> (exn + unit) \<times> limiter" where
  "check_refresh_rate_limit cfg reqs request now =
     check_rate_limit reqs request (rate_limit_refresh cfg) 60 ''refresh'' now"

text \<open>
  \<open>n\<close> calls of \<^verbatim>\<open>check_rate_limit\<close> for the same request at the same clock reading:
  the list of their results, first call first, and the limiter they leave.
\<close>

fun burst ::
  "nat \<Rightarrow> limiter \<Rightarrow> Request \<Rightarrow> int \<Rightarrow> int \<Rightarrow> string \<Rightarrow> real \<Rightarrow> (exn + unit) list \<times> limiter" where
  "burst 0 reqs request limit window_seconds key_prefix now = ([], reqs)"
| "burst (Suc n) reqs request limit window_seconds key_prefix now =
     (let (r, reqs1) = check_rate_limit reqs request limit window_seconds key_prefix now;
          (rs, reqs2) = burst n reqs1 request limit window_seconds key_prefix now
      in (r # rs, reqs2))"

section \<open>Register and login behind their dependencies: api/app/deps.py, api/app/routers/auth.py\<close>











section \<open>Access tokens: JWTManager and the AuthMiddleware of the gateway\<close>

text \<open>
  Claims are JSON values; \<open>truthy\<close> is Python's truth value of one.
\<close>

datatype json =
    JNull
  | JBool bool
  | JInt int
  | JFloat real
  | JStr string
  | JList "json list"
  | JObject "(string \<times> json) list"

fun truthy :: "json option \<Rightarrow> bool" where
  "truthy None = False"
| "truthy (Some JNull) = False"
| "truthy (Some (JBool b)) = b"
| "truthy (Some (JInt i)) = (i \<noteq> 0)"
| "truthy (Some (JFloat x)) = (x \<noteq> 0)"
| "truthy (Some (JStr s)) = (s \<noteq> [])"
| "truthy (Some (JList l)) = (l \<noteq> [])"
| "truthy (Some (JObject kvs)) = (kvs \<noteq> [])"

type_synonym payload = "string \<rightharpoonup> json"

datatype jwt_exn = ExpiredSignatureError | InvalidTokenError

text \<open>
  \<^verbatim>\<open>jwt.decode(token, key, algorithms=[algorithm])\<close> is a function of the PyJWT library,
  whose code is not part of the repository. The operations below take it as the parameter
  \<open>decode\<close>, applied to the token, the key and the algorithm: the claims of the token
  when the library accepts it at the moment of the call (its signature verifies under the
  key and the algorithm, and its registered claims, \<^verbatim>\<open>exp\<close> among them, pass the
  validation of the library), and otherwise the exception the library raises,
  \<^verbatim>\<open>ExpiredSignatureError\<close> or another \<^verbatim>\<open>InvalidTokenError\<close>.
\<close>

type_synonym jwt_decode = "string \<Rightarrow> string \<Rightarrow> string \<Rightarrow> jwt_exn + payload"

text \<open>\<^verbatim>\<open>JWTManager.verify_access_token\<close> (api/app/security.py).\<close>

definition verify_access_token :: "jwt_decode \<Rightarrow> string \<Rightarrow> string \<Rightarrow> string \<Rightarrow> exn + payload" where
  "verify_access_token decode secret algorithm token =
     (case decode token secret algorithm of
        Inr payload \<Rightarrow>
          if payload ''type'' \<noteq> Some (JStr ''access'')
          then Inl (HTTPException 401 ''Invalid token type'')
          else Inr payload
      | Inl ExpiredSignatureError \<Rightarrow> Inl (HTTPException 401 ''Token has expired'')
      | Inl InvalidTokenError \<Rightarrow> Inl (HTTPException 401 ''Invalid token''))"

text \<open>A response of the gateway: its status and the fields of its JSON content.\<close>

datatype Response = JSONResponse int "(string \<times> string) list"

fun status_code :: "Response \<Rightarrow> int" where
  "status_code (JSONResponse code content) = code"

text \<open>What \<^verbatim>\<open>AuthMiddleware.dispatch\<close> writes to \<^verbatim>\<open>request.state\<close>.\<close>

record AuthState =
  state_user_id :: "json option"
  state_user_email :: "json option"
  state_user_roles :: json

definition SKIP_PATHS :: "string list" where
  "SKIP_PATHS = [''/'', ''/health'', ''/metrics'', ''/api/v1/docs'', ''/api/v1/redoc'',
                 ''/api/v1/openapi.json'', ''/api/v1/auth/login'', ''/api/v1/auth/register'',
                 ''/api/v1/auth/refresh'']"

definition startswith :: "string \<Rightarrow> string \<Rightarrow> bool" where
  "startswith s p = (take (length p) s = p)"

definition should_skip_auth :: "Request \<Rightarrow> bool" where
  "should_skip_auth request =
     (if path request \<in> set SKIP_PATHS then True
      else if startswith (path request) ''/health'' \<or> startswith (path request) ''/metrics''
              \<or> startswith (path request) ''/.well-known'' then True
      else if http_method request = ''OPTIONS'' then True
      else False)"

text \<open>\<^verbatim>\<open>authorization.split(" ", 1)[1]\<close> of a value that starts with \<^verbatim>\<open>"Bearer "\<close> is the
  rest of the value after that prefix.\<close>

definition extract_token :: "Request \<Rightarrow> string option" where
  "extract_token request =
     (case headers request ''Authorization'' of
        Some (c # cs) \<Rightarrow>
          if startswith (c # cs) ''Bearer '' then Some (drop 7 (c # cs))
          else (case cookies request ''access_token'' of
                  Some (t # ts) \<Rightarrow> Some (t # ts)
                | _ \<Rightarrow> None)
      | _ \<Rightarrow>
          (case cookies request ''access_token'' of
             Some (t # ts) \<Rightarrow> Some (t # ts)
           | _ \<Rightarrow> None))"

definition verify_token :: "jwt_decode \<Rightarrow> string \<Rightarrow> string \<Rightarrow> string \<Rightarrow> payload option" where
  "verify_token decode secret algorithm token =
     (case decode token secret algorithm of
        Inr payload \<Rightarrow> if \<not> truthy (payload ''sub'') then None else Some payload
      | Inl ExpiredSignatureError \<Rightarrow> None
      | Inl InvalidTokenError \<Rightarrow> None)"

definition unauthorized_response :: "string \<Rightarrow> Response" where
  "unauthorized_response message =
     JSONResponse 401 [(''error'', ''Unauthorized''), (''message'', message),
                       (''code'', ''AUTH_REQUIRED'')]"

text \<open>
  \<^verbatim>\<open>AuthMiddleware.dispatch\<close>. \<open>call_next\<close> is the rest of the application: it sees the
  request and the state the middleware attached, and returns a response or raises. On a
  skipped path it is called outside the \<^verbatim>\<open>try\<close>; otherwise every exception, also one of
  \<open>call_next\<close>, is answered with 401.
\<close>

definition dispatch ::
  "jwt_decode \<Rightarrow> string \<Rightarrow> string \<Rightarrow> Request \<Rightarrow>
   (Request \<Rightarrow> AuthState option \<Rightarrow> 'e + Response) \<Rightarrow> 'e + Response" where
  "dispatch decode secret algorithm request call_next =
     (if should_skip_auth request then call_next request None
      else
        (case extract_token request of
           None \<Rightarrow> Inr (unauthorized_response ''Missing authorization token'')
         | Some [] \<Rightarrow> Inr (unauthorized_response ''Missing authorization token'')
         | Some (c # cs) \<Rightarrow>
             (case verify_token decode secret algorithm (c # cs) of
                None \<Rightarrow> Inr (unauthorized_response ''Invalid or expired token'')
              | Some payload \<Rightarrow>
                  if payload = Map.empty
                  then Inr (unauthorized_response ''Invalid or expired token'')
                  else
                    (case call_next request
                            (Some \<lparr>state_user_id = payload ''sub'',
                                   state_user_email = payload ''email'',
                                   state_user_roles =
                                     (case payload ''roles'' of None \<Rightarrow> JList [] | Some v \<Rightarrow> v)\<rparr>) of
                       Inl e \<Rightarrow> Inr (unauthorized_response ''Authentication failed'')
                     | Inr response \<Rightarrow> Inr response))))"

section \<open>The forwarding gateway: ServiceProxy\<close>

text \<open>
  What can be raised inside the \<^verbatim>\<open>try\<close> of \<^verbatim>\<open>forward_request\<close>: an
  \<^verbatim>\<open>aiohttp.ClientError\<close> (the connection failed), an \<^verbatim>\<open>asyncio.TimeoutError\<close> (the
  total timeout of the session ran out), an \<^verbatim>\<open>HTTPException\<close> raised by the function
  itself, or anything else.
\<close>

datatype py_exn = ClientError | TimeoutError | Raised exn | OtherException

text \<open>The response of the downstream service; \<open>up_json\<close> is the result of
  \<^verbatim>\<open>await response.json()\<close>, \<open>None\<close> when it raises.\<close>

record Upstream =
  up_status :: int
  up_text :: string
  up_content_type :: "string option"
  up_json :: "string option"

record Outgoing =
  out_method :: string
  out_url :: string
  out_headers :: "string \<rightharpoonup> string"
  out_params :: "(string \<times> string) list"
  out_json :: "(string \<times> string) list option"
  out_data :: "string option"

datatype forwarded =
    Json string
  | Content string "string option"
  | ParseFailed string

definition rstrip_slash :: "string \<Rightarrow> string" where
  "rstrip_slash s = rev (dropWhile (\<lambda>c. c = CHR ''/'') (rev s))"

definition lstrip_slash :: "string \<Rightarrow> string" where
  "lstrip_slash s = dropWhile (\<lambda>c. c = CHR ''/'') s"

text \<open>\<^verbatim>\<open>_prepare_headers\<close>, with \<^verbatim>\<open>exclude_content_type\<close> at its default.\<close>

definition prepare_headers :: "Request \<Rightarrow> (string \<rightharpoonup> string)" where
  "prepare_headers request =
     (let h0 = Map.empty;
          h1 = (case headers request ''Authorization'' of
                  Some v \<Rightarrow> h0(''Authorization'' \<mapsto> v) | None \<Rightarrow> h0);
          h2 = (case request_id request of
                  Some v \<Rightarrow> h1(''X-Request-ID'' \<mapsto> v) | None \<Rightarrow> h1);
          h3 = (case headers request ''User-Agent'' of
                  Some v \<Rightarrow> h2(''X-Original-User-Agent'' \<mapsto> v) | None \<Rightarrow> h2)
      in case headers request ''Content-Type'' of
           Some v \<Rightarrow> h3(''Content-Type'' \<mapsto> v) | None \<Rightarrow> h3)"

text \<open>The statements inside the \<^verbatim>\<open>try\<close>: build the request, send it through
  \<open>transport\<close>, raise on a status of 400 or more, parse the body.\<close>

definition forward_try ::
  "string \<Rightarrow> string \<Rightarrow> Request \<Rightarrow> (string \<times> string) list option \<Rightarrow>
   (string \<times> string) list option \<Rightarrow> (Outgoing \<Rightarrow> py_exn + Upstream) \<Rightarrow>
   py_exn + forwarded" where
  "forward_try service full_url request params json_data transport =
     (let hdrs = prepare_headers request;
          has_json = (case json_data of Some (kv # kvs) \<Rightarrow> True | _ \<Rightarrow> False);
          data = (if \<not> has_json \<and> http_method request \<in> set [''POST'', ''PUT'', ''PATCH'']
                  then (case body request of Some (c # cs) \<Rightarrow> Some (c # cs) | _ \<Rightarrow> None)
                  else None);
          hdrs' = (if data \<noteq> None
                   then hdrs(''Content-Type'' \<mapsto>
                          (case headers request ''Content-Type'' of
                             Some v \<Rightarrow> v | None \<Rightarrow> ''application/json''))
                   else hdrs);
          outgoing = \<lparr>out_method = http_method request, out_url = full_url, out_headers = hdrs',
                      out_params = (case params of Some ps \<Rightarrow> ps | None \<Rightarrow> []),
                      out_json = (if has_json then json_data else None), out_data = data\<rparr>
      in case transport outgoing of
           Inl e \<Rightarrow> Inl e
         | Inr response \<Rightarrow>
             if up_status response \<ge> 400
             then Inl (Raised (HTTPException (up_status response)
                         (''Service '' @ [CHR 0x27] @ service @ [CHR 0x27] @ '' returned error: ''
                            @ up_text response)))
             else if startswith (case up_content_type response of Some t \<Rightarrow> t | None \<Rightarrow> [])
                       ''application/json''
             then (case up_json response of
                     Some j \<Rightarrow> Inr (Json j)
                   | None \<Rightarrow> Inr (ParseFailed (up_text response)))
             else Inr (Content (up_text response) (up_content_type response)))"

text \<open>
  \<^verbatim>\<open>forward_request\<close>: the registry check, then the \<^verbatim>\<open>try\<close> with its two handlers,
  \<^verbatim>\<open>except aiohttp.ClientError\<close> and \<^verbatim>\<open>except Exception\<close>, in the order of the source.
\<close>

definition forward_request ::
  "(string \<rightharpoonup> string) \<Rightarrow> string \<Rightarrow> string \<Rightarrow> Request \<Rightarrow> (string \<times> string) list option \<Rightarrow>
   (string \<times> string) list option \<Rightarrow> (Outgoing \<Rightarrow> py_exn + Upstream) \<Rightarrow> exn + forwarded" where
  "forward_request service_registry service path' request params json_data transport =
     (case service_registry service of
        None \<Rightarrow> Inl (HTTPException 404
                      (''Service '' @ [CHR 0x27] @ service @ [CHR 0x27] @ '' not found''))
      | Some service_url \<Rightarrow>
          (let full_url = rstrip_slash service_url @ ''/'' @ lstrip_slash path' in
           case forward_try service full_url request params json_data transport of
             Inr result \<Rightarrow> Inr result
           | Inl ClientError \<Rightarrow>
               Inl (HTTPException 503
                      (''Service '' @ [CHR 0x27] @ service @ [CHR 0x27] @ '' unavailable''))
           | Inl other \<Rightarrow> Inl (HTTPException 500 ''Internal service error'')))"

definition registry0 :: "string \<rightharpoonup> string" where
  "registry0 = [''data_service'' \<mapsto> ''http://localhost:8001/'']"

definition get_request :: Request where
  "get_request = \<lparr>http_method = ''GET'', path = ''/api/v1/datasets'', headers = Map.empty,
                   cookies = Map.empty, client = Some ''10.0.0.1'', request_id = None,
                   body = None\<rparr>"

text \<open>The \<^verbatim>\<open>UPDATE\<close> of \<^verbatim>\<open>revoke_all_user_tokens\<close> on one row.\<close>

definition revoke_row :: "int \<Rightarrow> instant \<Rightarrow> RefreshToken \<Rightarrow> RefreshToken" where
  "revoke_row u now r =
     (if user_id r = u \<and> revoked_at r = None then r\<lparr>revoked_at := Some now\<rparr> else r)"

text \<open>The \<^verbatim>\<open>UPDATE\<close> of \<^verbatim>\<open>revoke_refresh_token\<close> on one row: the row with the primary
  key of the revoked record gets \<open>revoked_at\<close>.\<close>

definition revoke_one :: "RefreshToken \<Rightarrow> instant \<Rightarrow> RefreshToken \<Rightarrow> RefreshToken" where
  "revoke_one old now r = (if rid r = rid old then r\<lparr>revoked_at := Some now\<rparr> else r)"

text \<open>The key \<^verbatim>\<open>f"{key_prefix}:{client_ip}"\<close> under which \<^verbatim>\<open>check_rate_limit\<close> counts a
  request.\<close>

definition client_key :: "string \<Rightarrow> Request \<Rightarrow> string" where
  "client_key key_prefix request =
     key_prefix @ '':'' @ (case client request of Some h \<Rightarrow> h | None \<Rightarrow> ''unknown'')"

text \<open>What \<^verbatim>\<open>dispatch\<close> does with a payload it accepted: attach the state, call the rest
  of the application, answer 401 when that raises.\<close>

definition forward_authenticated ::
  "payload \<Rightarrow> Request \<Rightarrow> (Request \<Rightarrow> AuthState option \<Rightarrow> 'e + Response) \<Rightarrow> 'e + Response" where
  "forward_authenticated payload request call_next =
     (case call_next request
             (Some \<lparr>state_user_id = payload ''sub'',
                    state_user_email = payload ''email'',
                    state_user_roles =
                      (case payload ''roles'' of None \<Rightarrow> JList [] | Some v \<Rightarrow> v)\<rparr>) of
        Inl e \<Rightarrow> Inr (unauthorized_response ''Authentication failed'')
      | Inr response \<Rightarrow> Inr response)"

text \<open>Concrete tokens, requests and applications used to evaluate the gate.\<close>

definition refresh_claims :: payload where
  "refresh_claims = [''sub'' \<mapsto> JStr ''42'', ''type'' \<mapsto> JStr ''refresh'', ''exp'' \<mapsto> JInt 2000]"

text \<open>
  The library at an instant before 2000, for the key \<open>secret\<close> and the algorithm
  \<open>HS256\<close>: the token \<open>tok-refresh\<close> is one signed with that key under that algorithm
  and carries \<open>refresh_claims\<close>; every other token is refused.
\<close>

definition decode0 :: jwt_decode where
  "decode0 token key algorithm =
     (if token = ''tok-refresh'' \<and> key = ''secret'' \<and> algorithm = ''HS256''
      then Inr refresh_claims else Inl InvalidTokenError)"

definition bearer_request :: Request where
  "bearer_request = \<lparr>http_method = ''GET'', path = ''/api/v1/datasets'',
                      headers = [''Authorization'' \<mapsto> ''Bearer tok-refresh''],
                      cookies = Map.empty, client = Some ''10.0.0.1'', request_id = None,
                      body = None\<rparr>"

definition call_next0 :: "Request \<Rightarrow> AuthState option \<Rightarrow> unit + Response" where
  "call_next0 request st =
     (case st of
        Some s \<Rightarrow> (case state_user_id s of
                     Some (JStr u) \<Rightarrow> Inr (JSONResponse 200 [(''user'', u)])
                   | _ \<Rightarrow> Inr (JSONResponse 200 []))
      | None \<Rightarrow> Inr (JSONResponse 200 []))"

text \<open>Concrete downstream behaviours and inputs used to evaluate the proxy and the
  dependencies of register and login.\<close>

definition transport_404 :: "Outgoing \<Rightarrow> py_exn + Upstream" where
  "transport_404 outgoing =
     Inr \<lparr>up_status = 404, up_text = ''no such dataset'',
          up_content_type = Some ''application/json'', up_json = None\<rparr>"

definition transport_refused :: "Outgoing \<Rightarrow> py_exn + Upstream" where
  "transport_refused outgoing = Inl ClientError"




section \<open>Properties of the refresh-token store\<close>

lemma find_hash_Some:
  "find (\<lambda>r. token_hash r = h) rows = Some r \<Longrightarrow> r \<in> set rows \<and> token_hash r = h"
  by (induction rows) (auto split: if_splits)

lemma verify_Some_iff:
  "verify_refresh_token H rows token now = Some r \<longleftrightarrow>
     find (\<lambda>x. token_hash x = H token) rows = Some r \<and> revoked_at r = None \<and> now \<le> expires_at r"
  by (auto simp: verify_refresh_token_def is_revoked_def is_expired_def Let_def
           split: option.splits)

text \<open>
  Claim C2, as the code has it. The record found for the presented token is returned
  exactly when its \<open>revoked_at\<close> is null and \<open>now\<close> is at most \<open>expires_at\<close>:
  \<^verbatim>\<open>is_expired\<close> is \<^verbatim>\<open>now > expires_at\<close>, so a token presented at the instant
  \<open>expires_at\<close> itself still verifies, and it fails from the first instant after it.
\<close>

theorem refresh_token_valid_iff:
  "(verify_refresh_token H rows token now = Some r \<longleftrightarrow>
      find (\<lambda>x. token_hash x = H token) rows = Some r \<and> revoked_at r = None \<and> now \<le> expires_at r)
   \<and> (find (\<lambda>x. token_hash x = H token) rows = Some r \<and> revoked_at r = None \<and> now = expires_at r
        \<longrightarrow> verify_refresh_token H rows token now = Some r)
   \<and> (expires_at r < now \<longrightarrow> verify_refresh_token H rows token now \<noteq> Some r)"
  using verify_Some_iff [of H rows token now r] by auto

theorem refresh_token_valid_iff_witness:
  "verify_refresh_token (\<lambda>s. ''h-'' @ s) [row_alice, row_bob] ''bob'' 1000 = Some row_bob
   \<and> verify_refresh_token (\<lambda>s. ''h-'' @ s) [row_alice, row_bob] ''bob'' 1001 \<noteq> Some row_bob"
  using refresh_token_valid_iff [of "\<lambda>s. ''h-'' @ s" "[row_alice, row_bob]" "''bob''" 1000 row_bob]
        refresh_token_valid_iff [of "\<lambda>s. ''h-'' @ s" "[row_alice, row_bob]" "''bob''" 1001 row_bob]
  by (simp add: row_alice_def row_bob_def)

text \<open>
  The claim C2 as stated fails at the boundary: the unrevoked token \<open>row_alice\<close> expires at
  1000 and is presented at the instant 1000; verification returns the record.
\<close>

theorem refresh_token_at_expiry_counterexample:
  "verify_refresh_token (\<lambda>s. ''h-'' @ s) [row_alice] ''alice'' (expires_at row_alice) = Some row_alice"
  by (simp add: verify_refresh_token_def row_alice_def is_revoked_def is_expired_def)

lemma find_map_hash:
  assumes "\<And>r. token_hash (f r) = token_hash r"
  shows "find (\<lambda>x. token_hash x = h) (map f rows) = map_option f (find (\<lambda>x. token_hash x = h) rows)"
  using assms by (induction rows) auto

lemma find_append_cases:
  "find P (xs @ ys) = (case find P xs of None \<Rightarrow> find P ys | Some x \<Rightarrow> Some x)"
  by (induction xs) auto

lemma verify_unfold:
  "verify_refresh_token H rows token t =
     (case find (\<lambda>x. token_hash x = H token) rows of
        None \<Rightarrow> None
      | Some r \<Rightarrow> if revoked_at r \<noteq> None then None
                  else if t > expires_at r then None else Some r)"
  by (simp add: verify_refresh_token_def Let_def is_revoked_def is_expired_def
        split: option.splits)

lemma verify_map:
  assumes "\<And>r. token_hash (f r) = token_hash r"
  shows "verify_refresh_token H (map f rows) token t =
     (case find (\<lambda>x. token_hash x = H token) rows of
        None \<Rightarrow> None
      | Some r \<Rightarrow> if revoked_at (f r) \<noteq> None then None
                  else if t > expires_at (f r) then None else Some (f r))"
  unfolding verify_refresh_token_def Let_def find_map_hash [of f, OF assms] is_revoked_def is_expired_def
  by (cases "find (\<lambda>x. token_hash x = H token) rows") simp_all

lemma revoke_row_simps:
  "token_hash (revoke_row u now r) = token_hash r"
  "user_id (revoke_row u now r) = user_id r"
  "expires_at (revoke_row u now r) = expires_at r"
  "user_id r = u \<Longrightarrow> revoked_at (revoke_row u now r) \<noteq> None"
  "user_id r \<noteq> u \<Longrightarrow> revoke_row u now r = r"
  by (simp_all add: revoke_row_def)

lemma revoke_all_eq:
  "revoke_all_user_tokens rows u now ok = Inr rows' \<Longrightarrow> rows' = map (revoke_row u now) rows"
  unfolding revoke_all_user_tokens_def
  by (cases ok) (auto simp: revoke_row_def)

lemma verify_revoke_all:
  "verify_refresh_token H (map (revoke_row u now) rows) token t =
     (case find (\<lambda>x. token_hash x = H token) rows of
        None \<Rightarrow> None
      | Some r \<Rightarrow> if user_id r = u then None else verify_refresh_token H rows token t)"
proof (cases "find (\<lambda>x. token_hash x = H token) rows")
  case None
  then show ?thesis
    by (simp add: verify_map [of "revoke_row u now", OF revoke_row_simps(1)])
next
  case (Some r)
  show ?thesis
  proof (cases "user_id r = u")
    case True
    then show ?thesis
      using Some revoke_row_simps(4) [of r u now]
      by (simp add: verify_map [of "revoke_row u now", OF revoke_row_simps(1)])
  next
    case False
    then show ?thesis
      using Some revoke_row_simps(5) [of r u now]
      by (simp add: verify_map [of "revoke_row u now", OF revoke_row_simps(1)]
            verify_unfold [of H rows])
  qed
qed


lemma revoke_all_rows_effect:
  assumes "revoke_all_user_tokens rows u now ok = Inr rows'"
  shows "length rows' = length rows
     \<and> (\<forall>i < length rows.
          (user_id (rows ! i) \<noteq> u \<longrightarrow> rows' ! i = rows ! i)
        \<and> (user_id (rows ! i) = u \<and> revoked_at (rows ! i) = None
             \<longrightarrow> rows' ! i = (rows ! i)\<lparr>revoked_at := Some now\<rparr>)
        \<and> (user_id (rows ! i) = u \<longrightarrow> user_id (rows' ! i) = u \<and> revoked_at (rows' ! i) \<noteq> None))
     \<and> (\<forall>token t r. verify_refresh_token H rows' token t = Some r \<longrightarrow> user_id r \<noteq> u)
     \<and> (\<forall>token t r. find (\<lambda>x. token_hash x = H token) rows = Some r \<and> user_id r = u
            \<longrightarrow> verify_refresh_token H rows' token t = None)
     \<and> (\<forall>token t r. find (\<lambda>x. token_hash x = H token) rows = Some r \<and> user_id r \<noteq> u
            \<longrightarrow> verify_refresh_token H rows' token t = verify_refresh_token H rows token t)"
proof -
  have eq: "rows' = map (revoke_row u now) rows"
    using assms by (rule revoke_all_eq)
  have len: "length rows' = length rows"
    by (simp add: eq)
  have rowwise: "\<forall>i < length rows.
          (user_id (rows ! i) \<noteq> u \<longrightarrow> rows' ! i = rows ! i)
        \<and> (user_id (rows ! i) = u \<and> revoked_at (rows ! i) = None
             \<longrightarrow> rows' ! i = (rows ! i)\<lparr>revoked_at := Some now\<rparr>)
        \<and> (user_id (rows ! i) = u \<longrightarrow> user_id (rows' ! i) = u \<and> revoked_at (rows' ! i) \<noteq> None)"
    by (simp add: eq revoke_row_def)
  have never: "user_id r \<noteq> u" if v: "verify_refresh_token H rows' token t = Some r" for token t r
  proof (cases "find (\<lambda>x. token_hash x = H token) rows")
    case None
    with v show ?thesis by (simp add: eq verify_revoke_all)
  next
    case (Some r0)
    with v have ne: "user_id r0 \<noteq> u" and "verify_refresh_token H rows token t = Some r"
      by (simp_all add: eq verify_revoke_all split: if_splits)
    then have "find (\<lambda>x. token_hash x = H token) rows = Some r"
      by (simp add: verify_Some_iff)
    with Some ne show ?thesis by simp
  qed
  have mine: "verify_refresh_token H rows' token t = None"
    if "find (\<lambda>x. token_hash x = H token) rows = Some r \<and> user_id r = u" for token t r
    using that by (simp add: eq verify_revoke_all)
  have others: "verify_refresh_token H rows' token t = verify_refresh_token H rows token t"
    if "find (\<lambda>x. token_hash x = H token) rows = Some r \<and> user_id r \<noteq> u" for token t r
    using that by (simp add: eq verify_revoke_all)
  from len rowwise never mine others show ?thesis by blast
qed

lemma revoke_all_committed:
  "revoke_all_user_tokens rows u now True = Inr (map (revoke_row u now) rows)"
  by (simp add: revoke_all_user_tokens_def revoke_row_def)

text \<open>
  Claim C3. \<^verbatim>\<open>revoke_all_user_tokens\<close> for user \<open>u\<close>, when its commit succeeds, returns
  a table with the same number and order of rows; it leaves every row of another user as
  it was, sets \<open>revoked_at = now\<close> on every row of \<open>u\<close> that was not revoked, and
  afterwards every row of \<open>u\<close> is revoked. So verification never returns a record of
  \<open>u\<close>, it returns \<open>None\<close> for every token whose record belongs to \<open>u\<close>, and for a
  token whose record belongs to another user it returns what it returned before.
\<close>

theorem revoke_all_user_tokens_effect:
  assumes "ok"
  shows "\<exists>rows'. revoke_all_user_tokens rows u now ok = Inr rows'
     \<and> length rows' = length rows
     \<and> (\<forall>i < length rows.
          (user_id (rows ! i) \<noteq> u \<longrightarrow> rows' ! i = rows ! i)
        \<and> (user_id (rows ! i) = u \<and> revoked_at (rows ! i) = None
             \<longrightarrow> rows' ! i = (rows ! i)\<lparr>revoked_at := Some now\<rparr>)
        \<and> (user_id (rows ! i) = u \<longrightarrow> user_id (rows' ! i) = u \<and> revoked_at (rows' ! i) \<noteq> None))
     \<and> (\<forall>token t r. verify_refresh_token H rows' token t = Some r \<longrightarrow> user_id r \<noteq> u)
     \<and> (\<forall>token t r. find (\<lambda>x. token_hash x = H token) rows = Some r \<and> user_id r = u
            \<longrightarrow> verify_refresh_token H rows' token t = None)
     \<and> (\<forall>token t r. find (\<lambda>x. token_hash x = H token) rows = Some r \<and> user_id r \<noteq> u
            \<longrightarrow> verify_refresh_token H rows' token t = verify_refresh_token H rows token t)"
proof -
  from assms have run: "revoke_all_user_tokens rows u now ok = Inr (map (revoke_row u now) rows)"
    by (simp add: revoke_all_committed)
  show ?thesis
    by (rule exI [of _ "map (revoke_row u now) rows"])
       (rule conjI [OF run revoke_all_rows_effect [OF run]])
qed

theorem revoke_all_user_tokens_effect_witness:
  "revoke_all_user_tokens [row_alice, row_bob] 7 600 True
      = Inr [row_alice\<lparr>revoked_at := Some 600\<rparr>, row_bob]
   \<and> verify_refresh_token tag_hash [row_alice\<lparr>revoked_at := Some 600\<rparr>, row_bob] ''alice'' 700 = None
   \<and> verify_refresh_token tag_hash [row_alice\<lparr>revoked_at := Some 600\<rparr>, row_bob] ''bob'' 700 = Some row_bob"
proof -
  have run: "revoke_all_user_tokens [row_alice, row_bob] 7 600 True
      = Inr [row_alice\<lparr>revoked_at := Some 600\<rparr>, row_bob]"
    by (simp add: revoke_all_user_tokens_def row_alice_def row_bob_def)
  have fa: "find (\<lambda>x. token_hash x = tag_hash ''alice'') [row_alice, row_bob] = Some row_alice \<and> user_id row_alice = 7"
    by (simp add: row_alice_def row_bob_def tag_hash_def)
  have fb: "find (\<lambda>x. token_hash x = tag_hash ''bob'') [row_alice, row_bob] = Some row_bob \<and> user_id row_bob \<noteq> 7"
    by (simp add: row_alice_def row_bob_def tag_hash_def)
  have vb: "verify_refresh_token tag_hash [row_alice, row_bob] ''bob'' 700 = Some row_bob"
    by (simp add: verify_refresh_token_def row_alice_def row_bob_def tag_hash_def is_revoked_def is_expired_def)
  have committed: "True" by simp
  from revoke_all_user_tokens_effect [OF committed, of "[row_alice, row_bob]" 7 600 tag_hash]
  obtain rows' where r: "revoke_all_user_tokens [row_alice, row_bob] 7 600 True = Inr rows'"
    and mine: "\<forall>token t r. find (\<lambda>x. token_hash x = tag_hash token) [row_alice, row_bob] = Some r \<and> user_id r = 7
            \<longrightarrow> verify_refresh_token tag_hash rows' token t = None"
    and others: "\<forall>token t r. find (\<lambda>x. token_hash x = tag_hash token) [row_alice, row_bob] = Some r \<and> user_id r \<noteq> 7
            \<longrightarrow> verify_refresh_token tag_hash rows' token t
                  = verify_refresh_token tag_hash [row_alice, row_bob] token t"
    by blast
  from r run have eq: "rows' = [row_alice\<lparr>revoked_at := Some 600\<rparr>, row_bob]" by simp
  from mine fa have a: "verify_refresh_token tag_hash rows' ''alice'' 700 = None"
    by blast
  from others fb have "verify_refresh_token tag_hash rows' ''bob'' 700
      = verify_refresh_token tag_hash [row_alice, row_bob] ''bob'' 700"
    by blast
  with vb a run show ?thesis by (simp add: eq)
qed

lemma create_committed:
  "create_refresh_token_record cfg H rows u token ua ip now True =
     Inr (\<lparr>rid = next_id rows, user_id = u, token_hash = H token,
            expires_at = now + timedelta_seconds (refresh_ttl cfg), revoked_at = None,
            user_agent = ua, ip_address = ip, created_at = now\<rparr>,
          rows @ [\<lparr>rid = next_id rows, user_id = u, token_hash = H token,
                    expires_at = now + timedelta_seconds (refresh_ttl cfg), revoked_at = None,
                    user_agent = ua, ip_address = ip, created_at = now\<rparr>])"
  by (simp add: create_refresh_token_record_def Let_def)

lemma verify_appended_fresh:
  assumes "\<forall>r \<in> set rows. token_hash r \<noteq> H token"
      and "token_hash stored = H token" and "revoked_at stored = None"
      and "t \<le> expires_at stored"
  shows "verify_refresh_token H (rows @ [stored]) token t = Some stored"
proof -
  have "find (\<lambda>x. token_hash x = H token) rows = None"
    using assms(1) by (simp add: find_None_iff)
  then have "find (\<lambda>x. token_hash x = H token) (rows @ [stored]) = Some stored"
    using assms(2) by (simp add: find_append_cases)
  with assms(3,4) show ?thesis by (simp add: verify_Some_iff)
qed

text \<open>
  Claim C7. Round trip: \<^verbatim>\<open>create_refresh_token_record\<close> for user \<open>u\<close> and the
  plaintext \<open>token\<close>, whose hash no stored row has (a fresh random token), returns,
  when its commit succeeds, a record that expires \<open>refresh_ttl\<close> seconds later and the
  table with that record; \<^verbatim>\<open>verify_refresh_token\<close> with the same plaintext, on that
  table and before the expiry, returns that record, and its \<open>user_id\<close> is \<open>u\<close>.
\<close>

theorem persist_then_verify_roundtrip:
  assumes "ok"
      and "\<forall>r \<in> set rows. token_hash r \<noteq> H token"
      and "t < now + timedelta_seconds (refresh_ttl cfg)"
  shows "\<exists>stored rows'. create_refresh_token_record cfg H rows u token ua ip now ok = Inr (stored, rows')
           \<and> expires_at stored = now + timedelta_seconds (refresh_ttl cfg)
           \<and> verify_refresh_token H rows' token t = Some stored
           \<and> user_id stored = u"
proof -
  let ?stored = "\<lparr>rid = next_id rows, user_id = u, token_hash = H token,
            expires_at = now + timedelta_seconds (refresh_ttl cfg), revoked_at = None,
            user_agent = ua, ip_address = ip, created_at = now\<rparr>"
  from assms(1) have run: "create_refresh_token_record cfg H rows u token ua ip now ok
      = Inr (?stored, rows @ [?stored])"
    by (simp add: create_committed)
  have v: "verify_refresh_token H (rows @ [?stored]) token t = Some ?stored"
    using assms(2,3) by (intro verify_appended_fresh) simp_all
  from run v show ?thesis by auto
qed

theorem persist_then_verify_roundtrip_witness:
  "verify_refresh_token tag_hash
     ([row_alice, row_bob] @
      [\<lparr>rid = 3, user_id = 9, token_hash = ''h-carol'', expires_at = 604800000500,
        revoked_at = None, user_agent = Some ''ua'', ip_address = None, created_at = 500\<rparr>])
     ''carol'' 600
   = Some \<lparr>rid = 3, user_id = 9, token_hash = ''h-carol'', expires_at = 604800000500,
        revoked_at = None, user_agent = Some ''ua'', ip_address = None, created_at = 500\<rparr>"
proof -
  let ?rec = "\<lparr>rid = 3, user_id = 9, token_hash = ''h-carol'', expires_at = 604800000500,
        revoked_at = None, user_agent = Some ''ua'', ip_address = None, created_at = 500\<rparr>"
  have run: "create_refresh_token_record default_settings tag_hash [row_alice, row_bob] 9 ''carol''
               (Some ''ua'') None 500 True = Inr (?rec, [row_alice, row_bob] @ [?rec])"
    by (simp add: create_refresh_token_record_def default_settings_def tag_hash_def next_id_def
          timedelta_seconds_def row_alice_def row_bob_def Let_def)
  have committed: "True" by simp
  have fresh: "\<forall>r \<in> set [row_alice, row_bob]. token_hash r \<noteq> tag_hash ''carol''"
    by (simp add: row_alice_def row_bob_def tag_hash_def)
  have before: "(600::int) < 500 + timedelta_seconds (refresh_ttl default_settings)"
    by (simp add: default_settings_def timedelta_seconds_def)
  from persist_then_verify_roundtrip
         [where H = tag_hash and token = "''carol''" and u = 9 and ua = "Some ''ua''"
            and ip = None, OF committed fresh before]
  obtain stored rows' where
        c: "create_refresh_token_record default_settings tag_hash [row_alice, row_bob] 9 ''carol''
               (Some ''ua'') None 500 True = Inr (stored, rows')"
    and v: "verify_refresh_token tag_hash rows' ''carol'' 600 = Some stored"
    by blast
  from c run have "Inr (stored, rows') = (Inr (?rec, [row_alice, row_bob] @ [?rec]) :: exn + _)"
    by (rule trans [OF sym])
  then have "stored = ?rec" and "rows' = [row_alice, row_bob] @ [?rec]"
    by auto
  with v show ?thesis by simp
qed

section \<open>Properties of the refresh and logout endpoints\<close>

lemma revoke_one_simps:
  "token_hash (revoke_one old now r) = token_hash r"
  "user_id (revoke_one old now r) = user_id r"
  "revoked_at (revoke_one old now old) = Some now"
  by (simp_all add: revoke_one_def)

lemma revoke_refresh_token_eq:
  "revoke_refresh_token rows old now ok =
     (if ok then Inr (map (revoke_one old now) rows) else Inl SQLAlchemyError)"
  by (auto simp: revoke_refresh_token_def revoke_one_def)

lemma verify_after_revoke_one:
  assumes "find (\<lambda>x. token_hash x = H token) rows = Some old"
  shows "verify_refresh_token H (map (revoke_one old now) rows) token t = None"
  using assms revoke_one_simps(3) [of old now]
  by (simp add: verify_map [of "revoke_one old now", OF revoke_one_simps(1)])

lemma verify_absent:
  assumes "\<forall>r \<in> set rows. token_hash r \<noteq> H token"
  shows "verify_refresh_token H rows token t = None"
proof -
  have "find (\<lambda>x. token_hash x = H token) rows = None"
    using assms by (simp add: find_None_iff)
  then show ?thesis by (simp add: verify_unfold)
qed

lemma verify_append_found:
  assumes "find (\<lambda>x. token_hash x = H token) rows = Some r"
  shows "verify_refresh_token H (rows @ extra) token t = verify_refresh_token H rows token t"
  using assms by (simp add: verify_unfold find_append_cases)

text \<open>
  Claim C8. \<^verbatim>\<open>logout\<close> returns the success message, with status 200, for every cookie
  (absent, empty, unknown, expired, revoked or valid), every table and every outcome of
  the database statements; so a second call with the same cookie, on the table the first
  call left, returns 200 again.
\<close>

theorem logout_always_succeeds:
  "fst (logout H db request cookie env)
     = Inr (MessageResponse ''Logout successful'' True,
            [DeleteCookie ''access_token'', DeleteCookie ''refresh_token''])
   \<and> status_code_of (fst (logout H db request cookie env)) = 200
   \<and> status_code_of (fst (logout H (snd (logout H db request cookie env)) request cookie env')) = 200"
proof -
  have ok: "fst (logout H d request cookie e)
     = Inr (MessageResponse ''Logout successful'' True,
            [DeleteCookie ''access_token'', DeleteCookie ''refresh_token''])" for d e
    by (simp add: logout_def Let_def split: option.splits list.splits sum.splits)
  show ?thesis by (simp add: ok)
qed

text \<open>
  Claim C9. A refresh request whose token does not verify (its hash is unknown, or its
  record is revoked, or expired) is answered with the one 401
  \<open>Invalid or expired refresh token\<close>, and the store the call leaves is the store it
  found: no record is written, and no other token of the user is revoked. This holds in
  particular for the replay of a token whose record is revoked.
\<close>

theorem refresh_rejects_without_writing:
  assumes "query_ok env"
  shows "(verify_refresh_token H (refresh_tokens db) (c # cs) (now_verify env) = None \<longrightarrow>
            refresh_token cfg H db request (Some (c # cs)) env
              = (Inl (HTTPException 401 ''Invalid or expired refresh token''), db))
       \<and> (find (\<lambda>x. token_hash x = H (c # cs)) (refresh_tokens db) = Some r \<and> revoked_at r \<noteq> None \<longrightarrow>
            refresh_token cfg H db request (Some (c # cs)) env
              = (Inl (HTTPException 401 ''Invalid or expired refresh token''), db))"
proof -
  have a: "refresh_token cfg H db request (Some (c # cs)) env
              = (Inl (HTTPException 401 ''Invalid or expired refresh token''), db)"
    if "verify_refresh_token H (refresh_tokens db) (c # cs) (now_verify env) = None"
    using assms that by (simp add: refresh_token_def)
  have b: "verify_refresh_token H (refresh_tokens db) (c # cs) (now_verify env) = None"
    if "find (\<lambda>x. token_hash x = H (c # cs)) (refresh_tokens db) = Some r \<and> revoked_at r \<noteq> None"
    using that by (simp add: verify_unfold)
  show ?thesis
  proof (intro conjI impI)
    assume "verify_refresh_token H (refresh_tokens db) (c # cs) (now_verify env) = None"
    then show "refresh_token cfg H db request (Some (c # cs)) env
              = (Inl (HTTPException 401 ''Invalid or expired refresh token''), db)"
      by (rule a)
  next
    assume "find (\<lambda>x. token_hash x = H (c # cs)) (refresh_tokens db) = Some r \<and> revoked_at r \<noteq> None"
    then have "verify_refresh_token H (refresh_tokens db) (c # cs) (now_verify env) = None"
      by (rule b)
    then show "refresh_token cfg H db request (Some (c # cs)) env
              = (Inl (HTTPException 401 ''Invalid or expired refresh token''), db)"
      by (rule a)
  qed
qed


theorem logout_always_succeeds_witness:
  "fst (logout tag_hash store0 request0 (Some ''alice'') env0)
     = Inr (MessageResponse ''Logout successful'' True,
            [DeleteCookie ''access_token'', DeleteCookie ''refresh_token''])
   \<and> refresh_tokens (snd (logout tag_hash store0 request0 (Some ''alice'') env0))
       = [row_alice\<lparr>revoked_at := Some 501\<rparr>, row_bob]
   \<and> status_code_of (fst (logout tag_hash (snd (logout tag_hash store0 request0 (Some ''alice'') env0))
                             request0 (Some ''alice'') env0)) = 200"
proof -
  have st: "refresh_tokens (snd (logout tag_hash store0 request0 (Some ''alice'') env0))
       = [row_alice\<lparr>revoked_at := Some 501\<rparr>, row_bob]"
    by (simp add: logout_def verify_refresh_token_def revoke_refresh_token_def store0_def env0_def
          tag_hash_def row_alice_def row_bob_def is_revoked_def is_expired_def Let_def)
  from logout_always_succeeds [of tag_hash store0 request0 "Some ''alice''" env0 env0] st
  show ?thesis by simp
qed

theorem refresh_rejects_without_writing_witness:
  "refresh_token default_settings tag_hash
     (store0\<lparr>refresh_tokens := [row_alice\<lparr>revoked_at := Some 501\<rparr>, row_bob]\<rparr>)
     request0 (Some ''alice'') env0
   = (Inl (HTTPException 401 ''Invalid or expired refresh token''),
      store0\<lparr>refresh_tokens := [row_alice\<lparr>revoked_at := Some 501\<rparr>, row_bob]\<rparr>)"
proof -
  have q: "query_ok env0" by (simp add: env0_def)
  have v: "verify_refresh_token tag_hash
             (refresh_tokens (store0\<lparr>refresh_tokens := [row_alice\<lparr>revoked_at := Some 501\<rparr>, row_bob]\<rparr>))
             (CHR ''a'' # ''lice'') (now_verify env0) = None"
    by (simp add: verify_refresh_token_def tag_hash_def row_alice_def row_bob_def is_revoked_def)
  from refresh_rejects_without_writing [OF q, of tag_hash
         "store0\<lparr>refresh_tokens := [row_alice\<lparr>revoked_at := Some 501\<rparr>, row_bob]\<rparr>"
         "CHR ''a''" "''lice''" default_settings request0] v
  show ?thesis by simp
qed

text \<open>
  The claim C1 as stated fails: the valid token of \<open>row_alice\<close> is presented, the commit
  of the revocation succeeds and the commit of the new record raises. The call ends
  with the \<^verbatim>\<open>PendingRollbackError\<close> of its handler (status 500) and leaves the old record
  revoked, with no new record.
\<close>

theorem rotation_insert_failure_counterexample:
  "refresh_token default_settings tag_hash store0 request0 (Some ''alice'') (env0\<lparr>create_ok := False\<rparr>)
   = (Inl PendingRollbackError,
      \<lparr>refresh_tokens = [row_alice\<lparr>revoked_at := Some 501\<rparr>, row_bob], users = [user_alice]\<rparr>)"
  by (simp add: refresh_token_def verify_refresh_token_def revoke_refresh_token_def
        create_refresh_token_record_def store0_def env0_def tag_hash_def row_alice_def row_bob_def
        user_alice_def is_revoked_def is_expired_def Let_def)

text \<open>
  Claim C1, as the code has it. Rotation is two commits in sequence, the revocation of
  the old record and then the insertion of the new one (whose hash no stored row has).
  When both commit, the reply is the success message, the old token no longer verifies
  and the new token verifies, up to its expiry, to an unrevoked record of the same user.
  When the first commit fails the call ends with status 500 (the \<^verbatim>\<open>PendingRollbackError\<close>
  raised in its handler) and the store is unchanged. When the first commit succeeds and
  the second fails the call ends with status 500 in the same way, the old record stays
  revoked and neither token verifies. In every case the old and the new token never both verify on
  the store the call leaves.
\<close>

theorem rotation_two_commits:
  assumes q: "query_ok env" "user_query_ok env"
    and v: "verify_refresh_token H (refresh_tokens db) (c # cs) (now_verify env) = Some old"
    and usr: "find (\<lambda>u. uid u = user_id old) (users db) = Some user"
    and fresh: "\<forall>r \<in> set (refresh_tokens db). token_hash r \<noteq> H (new_refresh_token env)"
    and res: "refresh_token cfg H db request (Some (c # cs)) env = (reply, db')"
  shows "(revoke_ok env \<and> create_ok env \<longrightarrow>
            reply = Inr (MessageResponse ''Token refreshed successfully'' True,
                         auth_cookies cfg (new_access_token env) (new_refresh_token env))
          \<and> (\<forall>t. verify_refresh_token H (refresh_tokens db') (c # cs) t = None)
          \<and> (\<forall>t. t \<le> now_create env + timedelta_seconds (refresh_ttl cfg) \<longrightarrow>
                 (\<exists>new. verify_refresh_token H (refresh_tokens db') (new_refresh_token env) t = Some new
                        \<and> user_id new = user_id old \<and> revoked_at new = None)))
       \<and> (\<not> revoke_ok env \<longrightarrow>
            reply = Inl PendingRollbackError \<and> status_code_of reply = 500 \<and> db' = db)
       \<and> (revoke_ok env \<and> \<not> create_ok env \<longrightarrow>
            reply = Inl PendingRollbackError \<and> status_code_of reply = 500
          \<and> refresh_tokens db' = map (revoke_one old (now_revoke env)) (refresh_tokens db)
          \<and> (\<forall>t. verify_refresh_token H (refresh_tokens db') (c # cs) t = None)
          \<and> (\<forall>t. verify_refresh_token H (refresh_tokens db') (new_refresh_token env) t = None))
       \<and> (\<forall>t. verify_refresh_token H (refresh_tokens db') (c # cs) t = None
              \<or> verify_refresh_token H (refresh_tokens db') (new_refresh_token env) t = None)"
proof -
  let ?rows = "refresh_tokens db"
  let ?rows1 = "map (revoke_one old (now_revoke env)) ?rows"
  let ?new = "\<lparr>rid = next_id ?rows1, user_id = uid user, token_hash = H (new_refresh_token env),
               expires_at = now_create env + timedelta_seconds (refresh_ttl cfg), revoked_at = None,
               user_agent = Some (get_user_agent request), ip_address = Some (get_client_ip request),
               created_at = now_create env\<rparr>"
  have found: "find (\<lambda>x. token_hash x = H (c # cs)) ?rows = Some old"
    using v by (simp add: verify_Some_iff)
  have uid_eq: "uid user = user_id old"
    using usr by (auto dest: find_Some_iff [THEN iffD1])
  have create: "create_refresh_token_record cfg H ?rows1 (uid user) (new_refresh_token env)
           (Some (get_user_agent request)) (Some (get_client_ip request)) (now_create env) ok
        = (if ok then Inr (?new, ?rows1 @ [?new]) else Inl SQLAlchemyError)" for ok
    by (simp add: create_refresh_token_record_def Let_def)
  have unfold: "refresh_token cfg H db request (Some (c # cs)) env =
      (if \<not> revoke_ok env
       then (Inl PendingRollbackError, db)
       else if \<not> create_ok env
       then (Inl PendingRollbackError,
             db\<lparr>refresh_tokens := ?rows1\<rparr>)
       else (Inr (MessageResponse ''Token refreshed successfully'' True,
                  auth_cookies cfg (new_access_token env) (new_refresh_token env)),
             db\<lparr>refresh_tokens := ?rows1 @ [?new]\<rparr>))"
    using q v usr by (simp add: refresh_token_def revoke_refresh_token_eq create Let_def)
  have old1: "verify_refresh_token H ?rows1 (c # cs) t = None" for t
    using found by (rule verify_after_revoke_one)
  have found1: "find (\<lambda>x. token_hash x = H (c # cs)) ?rows1 = Some (revoke_one old (now_revoke env) old)"
    using found by (simp add: find_map_hash [of "revoke_one old (now_revoke env)", OF revoke_one_simps(1)])
  have old2: "verify_refresh_token H (?rows1 @ [?new]) (c # cs) t = None" for t
    using verify_append_found [where H=H and token="c # cs", OF found1] old1 by simp
  have fresh1: "\<forall>r \<in> set ?rows1. token_hash r \<noteq> H (new_refresh_token env)"
    using fresh by (simp add: revoke_one_simps(1))
  have new0: "verify_refresh_token H ?rows (new_refresh_token env) t = None" for t
    using fresh by (rule verify_absent)
  have new1: "verify_refresh_token H ?rows1 (new_refresh_token env) t = None" for t
    using fresh1 by (rule verify_absent)
  have nf1: "find (\<lambda>x. token_hash x = H (new_refresh_token env)) ?rows1 = None"
    using fresh1 by (simp add: find_None_iff)
  have new2: "verify_refresh_token H (?rows1 @ [?new]) (new_refresh_token env) t = Some ?new"
    if "t \<le> now_create env + timedelta_seconds (refresh_ttl cfg)" for t
    using that nf1 by (simp add: verify_unfold find_append_cases)
  show ?thesis
  proof (cases "revoke_ok env")
    case False
    with unfold res have "reply = Inl PendingRollbackError" "db' = db"
      by simp_all
    with False new0 show ?thesis by simp
  next
    case True
    show ?thesis
    proof (cases "create_ok env")
      case False
      with True unfold res
      have "reply = Inl PendingRollbackError"
           "refresh_tokens db' = ?rows1"
        by auto
      with True False old1 new1 show ?thesis by simp
    next
      case c: True
      with True unfold res
      have r: "reply = Inr (MessageResponse ''Token refreshed successfully'' True,
                  auth_cookies cfg (new_access_token env) (new_refresh_token env))"
           "refresh_tokens db' = ?rows1 @ [?new]"
        by auto
      have "\<exists>new. verify_refresh_token H (?rows1 @ [?new]) (new_refresh_token env) t = Some new
                        \<and> user_id new = user_id old \<and> revoked_at new = None"
        if "t \<le> now_create env + timedelta_seconds (refresh_ttl cfg)" for t
        using new2 [OF that] uid_eq by simp
      with True c r old2 show ?thesis by simp
    qed
  qed
qed


theorem rotation_two_commits_witness:
  "verify_refresh_token tag_hash
     (refresh_tokens (snd (refresh_token default_settings tag_hash store0 request0 (Some ''alice'') env0)))
     ''alice'' 600 = None
   \<and> (\<exists>new. verify_refresh_token tag_hash
          (refresh_tokens (snd (refresh_token default_settings tag_hash store0 request0 (Some ''alice'') env0)))
          ''alice-2'' 600 = Some new \<and> user_id new = 7 \<and> revoked_at new = None)"
proof -
  have q: "query_ok env0" "user_query_ok env0" by (simp_all add: env0_def)
  have v: "verify_refresh_token tag_hash (refresh_tokens store0) (CHR ''a'' # ''lice'') (now_verify env0)
             = Some row_alice"
    by (simp add: verify_refresh_token_def store0_def env0_def tag_hash_def row_alice_def
          is_revoked_def is_expired_def)
  have usr: "find (\<lambda>u. uid u = user_id row_alice) (users store0) = Some user_alice"
    by (simp add: store0_def user_alice_def row_alice_def)
  have fresh: "\<forall>r \<in> set (refresh_tokens store0). token_hash r \<noteq> tag_hash (new_refresh_token env0)"
    by (simp add: store0_def env0_def tag_hash_def row_alice_def row_bob_def)
  have res: "refresh_token default_settings tag_hash store0 request0 (Some (CHR ''a'' # ''lice'')) env0
      = (fst (refresh_token default_settings tag_hash store0 request0 (Some ''alice'') env0),
         snd (refresh_token default_settings tag_hash store0 request0 (Some ''alice'') env0))"
    by simp
  have ok: "revoke_ok env0 \<and> create_ok env0" by (simp add: env0_def)
  have t: "(600::int) \<le> now_create env0 + timedelta_seconds (refresh_ttl default_settings)"
    by (simp add: env0_def default_settings_def timedelta_seconds_def)
  have n: "new_refresh_token env0 = ''alice-2''" "user_id row_alice = 7"
    by (simp_all add: env0_def row_alice_def)
  from rotation_two_commits [OF q v usr fresh res] ok t n show ?thesis
    by auto
qed

section \<open>Properties of the sliding-window limiter\<close>


lemma str_int_10: "str_int 10 = ''10''"
  by (simp add: str_int_def str_nat.simps)

lemma str_int_60: "str_int 60 = ''60''"
  by (simp add: str_int_def str_nat.simps)

lemma evict_stale: "\<forall>r \<in> set q. r < ws \<Longrightarrow> evict ws q = []"
  by (induction q) auto

lemma evict_replicate_keep: "\<not> now < ws \<Longrightarrow> evict ws (replicate k now) = replicate k now"
  by (cases k) auto

lemma check_rate_limit_unfold:
  "check_rate_limit reqs request limit window_seconds key_prefix now =
     (let requests = evict (now - real_of_int window_seconds) (queue_of reqs (client_key key_prefix request))
      in if int (length requests) \<ge> limit
         then (Inl (HTTPException 429
                      (''Rate limit exceeded. Maximum '' @ str_int limit @ '' requests per ''
                         @ str_int window_seconds @ '' seconds.'')),
               reqs(client_key key_prefix request \<mapsto> requests))
         else (Inr (), reqs(client_key key_prefix request \<mapsto> requests @ [now])))"
  by (simp add: check_rate_limit_def is_allowed_def client_key_def Let_def)

lemma replicate_snoc: "replicate k x @ [x] = replicate (Suc k) x"
  by (simp add: replicate_append_same)

lemma queue_of_upd: "queue_of (reqs(key \<mapsto> q)) key = q"
  by (simp add: queue_of_def)

lemma check_allowed_step:
  assumes inv: "evict (now - real_of_int w) (queue_of reqs (client_key p request)) = replicate k now"
      and room: "int k < limit" and w: "0 \<le> w"
  shows "fst (check_rate_limit reqs request limit w p now) = Inr ()
       \<and> evict (now - real_of_int w)
            (queue_of (snd (check_rate_limit reqs request limit w p now)) (client_key p request))
           = replicate (Suc k) now"
proof -
  have keep: "\<not> now < now - real_of_int w" using w by simp
  have res: "check_rate_limit reqs request limit w p now
      = (Inr (), reqs(client_key p request \<mapsto> replicate (Suc k) now))"
    using room by (simp add: check_rate_limit_unfold inv replicate_snoc del: replicate.simps)
  show ?thesis
    unfolding res using evict_replicate_keep [OF keep, of "Suc k"]
    by (simp add: queue_of_upd del: replicate.simps)
qed

lemma check_denied_step:
  assumes inv: "evict (now - real_of_int w) (queue_of reqs (client_key p request)) = q"
      and full: "limit \<le> int (length q)"
  shows "check_rate_limit reqs request limit w p now
       = (Inl (HTTPException 429
                 (''Rate limit exceeded. Maximum '' @ str_int limit @ '' requests per ''
                    @ str_int w @ '' seconds.'')),
          reqs(client_key p request \<mapsto> q))"
  using full by (simp add: check_rate_limit_unfold inv)

lemma burst_allowed:
  assumes "evict (now - real_of_int w) (queue_of reqs (client_key p request)) = replicate k now"
      and "int k + int n \<le> limit" and "0 \<le> w"
  shows "fst (burst n reqs request limit w p now) = replicate n (Inr ())
       \<and> evict (now - real_of_int w)
            (queue_of (snd (burst n reqs request limit w p now)) (client_key p request))
           = replicate (k + n) now"
  using assms
proof (induction n arbitrary: reqs k)
  case 0
  then show ?case by simp
next
  case (Suc n)
  let ?r1 = "snd (check_rate_limit reqs request limit w p now)"
  from Suc.prems have room: "int k < limit" by simp
  from check_allowed_step [OF Suc.prems(1) room Suc.prems(3)]
  have first: "fst (check_rate_limit reqs request limit w p now) = Inr ()"
    and inv1: "evict (now - real_of_int w) (queue_of ?r1 (client_key p request)) = replicate (Suc k) now"
    by simp_all
  from Suc.prems have room1: "int (Suc k) + int n \<le> limit" by simp
  from Suc.IH [OF inv1 room1 Suc.prems(3)]
  have rest: "fst (burst n ?r1 request limit w p now) = replicate n (Inr ())"
    and inv2: "evict (now - real_of_int w)
            (queue_of (snd (burst n ?r1 request limit w p now)) (client_key p request))
           = replicate (Suc k + n) now"
    by simp_all
  show ?case
    using first rest inv2 by (simp add: split_beta Let_def del: replicate.simps) (simp)
qed

text \<open>
  Claim C4. With limit 10 and a window of 60 seconds, for a key that has no request in
  the current window: ten calls of \<^verbatim>\<open>check_rate_limit\<close> at the same clock reading all
  return, the eleventh at that reading raises \<^verbatim>\<open>HTTPException\<close> 429, and a call from
  the same key at a reading more than 60 seconds later returns again.
\<close>

theorem sliding_window_ten_per_minute:
  assumes stale: "\<forall>r \<in> set (queue_of reqs (client_key key_prefix request)). r < now - 60"
      and b: "burst 10 reqs request 10 60 key_prefix now = (results, reqs10)"
      and e: "check_rate_limit reqs10 request 10 60 key_prefix now = (eleventh, reqs11)"
      and later: "now + 60 < later"
  shows "results = replicate 10 (Inr ())
       \<and> eleventh = Inl (HTTPException 429
                          ''Rate limit exceeded. Maximum 10 requests per 60 seconds.'')
       \<and> status_code_of eleventh = 429
       \<and> fst (check_rate_limit reqs11 request 10 60 key_prefix later) = Inr ()"
proof -
  have inv0: "evict (now - real_of_int 60) (queue_of reqs (client_key key_prefix request)) = replicate 0 now"
    using stale by (simp add: evict_stale)
  from burst_allowed [OF inv0, of 10 10] b
  have res: "results = replicate 10 (Inr ())"
    and inv10: "evict (now - real_of_int 60) (queue_of reqs10 (client_key key_prefix request))
                  = replicate 10 now"
    by simp_all
  from check_denied_step [OF inv10, of 10] e
  have el: "eleventh = Inl (HTTPException 429
                          ''Rate limit exceeded. Maximum 10 requests per 60 seconds.'')"
    and r11: "reqs11 = reqs10(client_key key_prefix request \<mapsto> replicate 10 now)"
    by (simp_all add: str_int_10 str_int_60)
  have "\<forall>r \<in> set (queue_of reqs11 (client_key key_prefix request)). r < later - real_of_int 60"
    using later by (simp add: r11 queue_of_upd)
  then have inv11: "evict (later - real_of_int 60) (queue_of reqs11 (client_key key_prefix request))
                      = replicate 0 later"
    by (simp add: evict_stale)
  from check_allowed_step [OF inv11, of 10]
  have "fst (check_rate_limit reqs11 request 10 60 key_prefix later) = Inr ()"
    by simp
  with res el show ?thesis by simp
qed


theorem sliding_window_ten_per_minute_witness:
  "fst (burst 10 Map.empty request0 10 60 ''auth'' 1000) = replicate 10 (Inr ())
   \<and> fst (check_rate_limit (snd (burst 10 Map.empty request0 10 60 ''auth'' 1000))
            request0 10 60 ''auth'' 1000)
       = Inl (HTTPException 429 ''Rate limit exceeded. Maximum 10 requests per 60 seconds.'')
   \<and> fst (check_rate_limit
            (snd (check_rate_limit (snd (burst 10 Map.empty request0 10 60 ''auth'' 1000))
                    request0 10 60 ''auth'' 1000))
            request0 10 60 ''auth'' 1061) = Inr ()"
proof -
  have stale: "\<forall>r \<in> set (queue_of Map.empty (client_key ''auth'' request0)). r < 1000 - 60"
    by (simp add: queue_of_def)
  have b: "burst 10 Map.empty request0 10 60 ''auth'' 1000
      = (fst (burst 10 Map.empty request0 10 60 ''auth'' 1000),
         snd (burst 10 Map.empty request0 10 60 ''auth'' 1000))"
    by simp
  have e: "check_rate_limit (snd (burst 10 Map.empty request0 10 60 ''auth'' 1000))
             request0 10 60 ''auth'' 1000
      = (fst (check_rate_limit (snd (burst 10 Map.empty request0 10 60 ''auth'' 1000))
                request0 10 60 ''auth'' 1000),
         snd (check_rate_limit (snd (burst 10 Map.empty request0 10 60 ''auth'' 1000))
                request0 10 60 ''auth'' 1000))"
    by simp
  have later: "(1000::real) + 60 < 1061" by simp
  from sliding_window_ten_per_minute [OF stale b e later] show ?thesis by simp
qed

text \<open>
  The window is closed at its far end: the eviction drops only entries strictly older
  than \<open>now - window_seconds\<close>, so at exactly 60 seconds after a full burst the key is
  still denied.
\<close>

lemma sliding_window_boundary_denied:
  assumes inv: "queue_of reqs (client_key key_prefix request) = replicate 10 now"
  shows "fst (check_rate_limit reqs request 10 60 key_prefix (now + 60))
       = Inl (HTTPException 429 ''Rate limit exceeded. Maximum 10 requests per 60 seconds.'')"
proof -
  have keep: "\<not> now < now + 60 - real_of_int 60" by simp
  have "evict (now + 60 - real_of_int 60) (queue_of reqs (client_key key_prefix request))
          = replicate 10 now"
    unfolding inv using keep by (rule evict_replicate_keep)
  from check_denied_step [OF this, of 10] show ?thesis
    by (simp add: str_int_10 str_int_60)
qed

section \<open>Properties of the authentication gate\<close>

lemma verify_token_Some_iff:
  "verify_token decode secret algorithm token = Some p \<longleftrightarrow>
     decode token secret algorithm = Inr p \<and> truthy (p ''sub'')"
  by (auto simp: verify_token_def split: sum.splits jwt_exn.splits)

lemma truthy_nonempty: "truthy (p k) \<Longrightarrow> p \<noteq> Map.empty"
  by (cases "p k") auto

lemma dispatch_unfold:
  assumes "\<not> should_skip_auth request" and "extract_token request = Some (c # cs)"
  shows "dispatch decode secret algorithm request call_next =
     (case verify_token decode secret algorithm (c # cs) of
        None \<Rightarrow> Inr (unauthorized_response ''Invalid or expired token'')
      | Some payload \<Rightarrow> forward_authenticated payload request call_next)"
proof (cases "verify_token decode secret algorithm (c # cs)")
  case None
  with assms show ?thesis by (simp add: dispatch_def)
next
  case (Some payload)
  then have "truthy (payload ''sub'')"
    using verify_token_Some_iff [of decode secret algorithm "c # cs" payload] by blast
  then have "payload \<noteq> Map.empty" by (rule truthy_nonempty)
  with assms Some show ?thesis
    by (simp add: dispatch_def forward_authenticated_def)
qed

lemma verify_access_token_Inr_iff:
  "verify_access_token decode secret algorithm token = Inr p \<longleftrightarrow>
     decode token secret algorithm = Inr p \<and> p ''type'' = Some (JStr ''access'')"
  by (auto simp: verify_access_token_def split: sum.splits jwt_exn.splits if_splits)

lemma verify_access_token_status:
  "(\<forall>p. verify_access_token decode secret algorithm token \<noteq> Inr p) \<Longrightarrow>
     status_code_of (verify_access_token decode secret algorithm token) = 401"
  by (auto simp: verify_access_token_def split: sum.splits jwt_exn.splits if_splits)

text \<open>
  Claim C5, as the code has it. For a request that is not skipped and presents a token,
  \<^verbatim>\<open>AuthMiddleware.dispatch\<close> passes the request on, with \<open>sub\<close>, \<open>email\<close> and
  \<open>roles\<close> of the verified claims attached to its state, exactly when \<^verbatim>\<open>jwt.decode\<close>
  accepts the token under the configured secret and algorithm (the library's check of
  signature and expiry) and the \<open>sub\<close> claim it returns is truthy; in every other case,
  whatever the library raised, it answers 401 with the one message
  \<open>Invalid or expired token\<close>. The \<open>type\<close> claim is not read by the gate. It is read by
  \<^verbatim>\<open>JWTManager.verify_access_token\<close> of the authentication API, which returns the
  claims exactly when the library accepts the token and its type is \<open>access\<close>, and
  raises 401 otherwise.
\<close>

theorem gate_accepts_on_signature_expiry_subject:
  assumes ns: "\<not> should_skip_auth request"
      and tok: "extract_token request = Some (c # cs)"
  shows "(\<forall>p. decode (c # cs) secret algorithm = Inr p \<and> truthy (p ''sub'') \<longrightarrow>
            dispatch decode secret algorithm request call_next
              = forward_authenticated p request call_next)
       \<and> ((\<forall>p. decode (c # cs) secret algorithm = Inr p \<longrightarrow> \<not> truthy (p ''sub'')) \<longrightarrow>
            dispatch decode secret algorithm request call_next
              = Inr (unauthorized_response ''Invalid or expired token''))
       \<and> status_code (unauthorized_response ''Invalid or expired token'') = 401
       \<and> (\<forall>p. verify_access_token decode secret algorithm (c # cs) = Inr p \<longleftrightarrow>
              decode (c # cs) secret algorithm = Inr p \<and> p ''type'' = Some (JStr ''access''))
       \<and> ((\<forall>p. decode (c # cs) secret algorithm = Inr p \<longrightarrow> p ''type'' \<noteq> Some (JStr ''access'')) \<longrightarrow>
            status_code_of (verify_access_token decode secret algorithm (c # cs)) = 401)"
proof -
  note unf = dispatch_unfold [OF ns tok, of decode secret algorithm call_next]
  have acc: "dispatch decode secret algorithm request call_next
              = forward_authenticated p request call_next"
    if "decode (c # cs) secret algorithm = Inr p \<and> truthy (p ''sub'')" for p
  proof -
    from that have "verify_token decode secret algorithm (c # cs) = Some p"
      unfolding verify_token_Some_iff by blast
    with unf show ?thesis by simp
  qed
  have rej: "dispatch decode secret algorithm request call_next
              = Inr (unauthorized_response ''Invalid or expired token'')"
    if "\<forall>p. decode (c # cs) secret algorithm = Inr p \<longrightarrow> \<not> truthy (p ''sub'')"
  proof -
    from that have "verify_token decode secret algorithm (c # cs) = None"
      using verify_token_Some_iff [of decode secret algorithm "c # cs"]
      by (cases "verify_token decode secret algorithm (c # cs)") auto
    with unf show ?thesis by simp
  qed
  have st: "status_code (unauthorized_response ''Invalid or expired token'') = 401"
    by (simp add: unauthorized_response_def)
  have ty: "status_code_of (verify_access_token decode secret algorithm (c # cs)) = 401"
    if "\<forall>p. decode (c # cs) secret algorithm = Inr p \<longrightarrow> p ''type'' \<noteq> Some (JStr ''access'')"
  proof (rule verify_access_token_status)
    from that show "\<forall>p. verify_access_token decode secret algorithm (c # cs) \<noteq> Inr p"
      unfolding verify_access_token_Inr_iff by blast
  qed
  from acc rej st ty verify_access_token_Inr_iff [of decode secret algorithm "c # cs"]
  show ?thesis by blast
qed

text \<open>
  The claim C5 as stated fails on the gate: a token that the library accepts, with the
  subject 42 and the type \<open>refresh\<close>, is accepted by the gate, and the application
  behind the gate answers 200 for user 42.
\<close>

theorem gate_ignores_type_counterexample:
  "dispatch decode0 ''secret'' ''HS256'' bearer_request call_next0
     = Inr (JSONResponse 200 [(''user'', ''42'')])"
  by (simp add: dispatch_def should_skip_auth_def SKIP_PATHS_def startswith_def extract_token_def
        verify_token_def decode0_def refresh_claims_def bearer_request_def call_next0_def)

theorem gate_accepts_on_signature_expiry_subject_witness:
  "dispatch decode0 ''secret'' ''HS256'' bearer_request call_next0
     = forward_authenticated refresh_claims bearer_request call_next0
   \<and> status_code_of (verify_access_token decode0 ''secret'' ''HS256'' ''tok-refresh'') = 401"
proof -
  have ns: "\<not> should_skip_auth bearer_request"
    by (simp add: should_skip_auth_def SKIP_PATHS_def startswith_def bearer_request_def)
  have tok: "extract_token bearer_request = Some (CHR ''t'' # ''ok-refresh'')"
    by (simp add: extract_token_def startswith_def bearer_request_def)
  have dec: "decode0 ''tok-refresh'' ''secret'' ''HS256'' = Inr refresh_claims"
    by (simp add: decode0_def)
  have sub: "truthy (refresh_claims ''sub'')"
    and ty: "refresh_claims ''type'' \<noteq> Some (JStr ''access'')"
    by (simp_all add: refresh_claims_def)
  from gate_accepts_on_signature_expiry_subject
         [OF ns tok, of decode0 "''secret''" "''HS256''" call_next0]
       dec sub ty
  show ?thesis by simp
qed

section \<open>Properties of the forwarding gateway\<close>

text \<open>
  The parts of the error taxonomy that \<^verbatim>\<open>forward_request\<close> keeps: an unregistered
  service name raises 404, and an \<^verbatim>\<open>aiohttp.ClientError\<close> of the transport raises 503.
  A timeout that surfaces as \<^verbatim>\<open>asyncio.TimeoutError\<close> is not a \<^verbatim>\<open>ClientError\<close> and takes
  the last handler.
\<close>

lemma forward_unregistered:
  "service_registry service = None \<Longrightarrow>
     forward_request service_registry service path' request params json_data transport
       = Inl (HTTPException 404 (''Service '' @ [CHR 0x27] @ service @ [CHR 0x27] @ '' not found''))"
  by (simp add: forward_request_def)

lemma forward_try_raises:
  "transport = (\<lambda>outgoing. Inl e) \<Longrightarrow>
     forward_try service full_url request params json_data transport = Inl e"
  by (simp add: forward_try_def Let_def)

lemma forward_client_error:
  assumes "service_registry service = Some url" and "transport = (\<lambda>outgoing. Inl ClientError)"
  shows "forward_request service_registry service path' request params json_data transport
       = Inl (HTTPException 503 (''Service '' @ [CHR 0x27] @ service @ [CHR 0x27] @ '' unavailable''))"
  using assms by (simp add: forward_request_def forward_try_raises Let_def)

lemma forward_timeout:
  assumes "service_registry service = Some url" and "transport = (\<lambda>outgoing. Inl TimeoutError)"
  shows "forward_request service_registry service path' request params json_data transport
       = Inl (HTTPException 500 ''Internal service error'')"
  using assms by (simp add: forward_request_def forward_try_raises Let_def)

text \<open>
  A downstream status of 400 or more makes the body of the \<^verbatim>\<open>try\<close> raise an
  \<^verbatim>\<open>HTTPException\<close> with that status and the downstream text. The exception is raised
  inside the \<^verbatim>\<open>try\<close>, it is not a \<^verbatim>\<open>ClientError\<close>, and so \<^verbatim>\<open>except Exception\<close>
  replaces it by the 500 \<open>Internal service error\<close>.
\<close>

lemma forward_try_error_status:
  assumes "transport = (\<lambda>outgoing. Inr response)" and "400 \<le> up_status response"
  shows "forward_try service full_url request params json_data transport
       = Inl (Raised (HTTPException (up_status response)
                (''Service '' @ [CHR 0x27] @ service @ [CHR 0x27] @ '' returned error: ''
                   @ up_text response)))"
  using assms by (simp add: forward_try_def Let_def)

lemma forward_downstream_error_masked:
  assumes "service_registry service = Some url"
      and "transport = (\<lambda>outgoing. Inr response)" and "400 \<le> up_status response"
  shows "forward_request service_registry service path' request params json_data transport
       = Inl (HTTPException 500 ''Internal service error'')"
  using assms(1) forward_try_error_status [OF assms(2,3)]
  by (simp add: forward_request_def Let_def)

text \<open>
  Claim C6, evaluated where the code departs from it: the service is registered and the
  downstream answers 404 with the text \<open>no such dataset\<close>; \<^verbatim>\<open>forward_request\<close> raises
  500 \<open>Internal service error\<close>, not the 404 and the message of the downstream.
\<close>

theorem forward_masks_downstream_404:
  "forward_request registry0 ''data_service'' ''/datasets/7'' get_request None None transport_404
     = Inl (HTTPException 500 ''Internal service error'')"
  by (simp add: forward_request_def forward_try_def registry0_def transport_404_def Let_def)

section \<open>Properties of the dependencies of register and login\<close>






end
